theory Spec2Isabelle
  imports Main "HOL-Library.Word"
begin

unbundle bit_operations_syntax

section \<open>Shallow embedding of the SIM reader (src/main.py)\<close>

text \<open>
  Values read from the card are Python integers; they are modelled as \<open>nat\<close>, and a
  buffer as \<open>nat list\<close>. A value is a byte when it is below 256; theorems that depend on
  that say so. \<open>x >> k\<close> is \<open>drop_bit k x\<close>, \<open>x << k\<close> is \<open>push_bit k x\<close>, \<open>&\<close> is
  \<open>AND\<close> and \<open>|\<close> is \<open>OR\<close>. ASCII text is a \<open>string\<close>; text that may hold any
  Unicode character is a list of code points.
\<close>

subsection \<open>Python primitives\<close>

datatype py_error = IndexError

type_synonym ustring = "nat list"

definition digit_char :: "nat \<Rightarrow> char" where
  "digit_char n = ''0123456789'' ! n"

text \<open>Python's \<open>str(n)\<close> for a non-negative integer: its decimal numeral.\<close>

function str :: "nat \<Rightarrow> string" where
  "str n = (if n < 10 then [digit_char n] else str (n div 10) @ [digit_char (n mod 10)])"
  by pat_completeness auto
termination
  by (relation "measure id") auto

declare str.simps [simp del]

text \<open>The slice \<open>xs[a:b]\<close> for non-negative \<open>a\<close> and \<open>b\<close>; empty when \<open>b \<le> a\<close>.\<close>

definition slice :: "'a list \<Rightarrow> nat \<Rightarrow> nat \<Rightarrow> 'a list" where
  "slice xs a b = take (b - a) (drop a xs)"

subsection \<open>decode_iccid (lines 219-229)\<close>

definition iccid_step :: "string \<Rightarrow> nat \<Rightarrow> string" where
  "iccid_step iccid byte =
     (let low = byte AND 0x0F;
          high = drop_bit 4 byte AND 0x0F;
          iccid = (if low \<noteq> 0x0F then iccid @ str low else iccid);
          iccid = (if high \<noteq> 0x0F then iccid @ str high else iccid)
      in iccid)"

definition decode_iccid :: "nat list \<Rightarrow> string" where
  "decode_iccid data = foldl iccid_step [] data"

text \<open>
  Modelled from the spec: the source has no encoder. Section 8 speaks of re-encoding a
  digit string "re-applying the same nibble order and filler rule": the digits are taken
  two at a time, the first into the low nibble and the second into the high nibble of a
  byte, and a last single digit is completed with the filler nibble \<open>0xF\<close>.
\<close>

definition digit_val :: "char \<Rightarrow> nat" where
  "digit_val c = of_char c - 48"

fun encode_semi_octet :: "string \<Rightarrow> nat list" where
  "encode_semi_octet [] = []"
| "encode_semi_octet [d] = [digit_val d OR push_bit 4 0x0F]"
| "encode_semi_octet (d1 # d2 # ds) =
     (digit_val d1 OR push_bit 4 (digit_val d2)) # encode_semi_octet ds"

definition no_filler :: "nat \<Rightarrow> bool" where
  "no_filler b = (b < 256 \<and> b AND 0x0F \<noteq> 0x0F \<and> drop_bit 4 b AND 0x0F \<noteq> 0x0F)"

definition decimal_byte :: "nat \<Rightarrow> bool" where
  "decimal_byte b = (b < 256 \<and> b AND 0x0F < 10 \<and> drop_bit 4 b AND 0x0F < 10)"

subsection \<open>decode_imsi (lines 197-217)\<close>

definition imsi_step :: "nat list \<Rightarrow> string \<Rightarrow> nat \<Rightarrow> string" where
  "imsi_step data imsi i =
     (if i < length data then
        (let byte = data ! i in
         if i = 1 then
           (let high = drop_bit 4 byte AND 0x0F
            in if high \<noteq> 0x0F then imsi @ str high else imsi)
         else
           (let low = byte AND 0x0F;
                high = drop_bit 4 byte AND 0x0F;
                imsi = (if low \<noteq> 0x0F then imsi @ str low else imsi);
                imsi = (if high \<noteq> 0x0F then imsi @ str high else imsi)
            in imsi))
      else imsi)"

definition decode_imsi :: "nat list \<Rightarrow> string option" where
  "decode_imsi data =
     (if length data < 9 then None
      else (let len = data ! 0
            in Some (foldl (imsi_step data) [] [1..<len + 1])))"

text \<open>What one nibble adds to the digit string: nothing for the filler, else its numeral.\<close>

definition nibble_digits :: "nat \<Rightarrow> string" where
  "nibble_digits n = (if n = 0x0F then [] else str n)"

text \<open>The two digits of a byte in the shared order: low nibble, then high nibble.\<close>

definition semi_octet :: "nat \<Rightarrow> string" where
  "semi_octet b = nibble_digits (b AND 0x0F) @ nibble_digits (drop_bit 4 b AND 0x0F)"

subsection \<open>decode_plmn (lines 328-353)\<close>

text \<open>
  The loop \<open>for i in range(0, len(data), 3)\<close> with its \<open>break\<close>; \<open>plmns\<close> is the list
  built so far. The f-strings print the nibbles in decimal.
\<close>

function plmn_loop :: "nat list \<Rightarrow> nat \<Rightarrow> string list \<Rightarrow> string list" where
  "plmn_loop data i plmns =
     (if length data \<le> i then plmns
      else if length data \<le> i + 2 then plmns
      else if data ! i = 0xFF \<and> data ! (i + 1) = 0xFF \<and> data ! (i + 2) = 0xFF
        then plmn_loop data (i + 3) plmns
      else plmn_loop data (i + 3)
        (let b1 = data ! i; b2 = data ! (i + 1); b3 = data ! (i + 2);
             mcc = str (b1 AND 0x0F) @ str (drop_bit 4 b1 AND 0x0F) @ str (b2 AND 0x0F);
             mnc_d1 = b3 AND 0x0F;
             mnc_d2 = drop_bit 4 b3 AND 0x0F;
             mnc_d3 = drop_bit 4 b2 AND 0x0F;
             mnc = (if mnc_d3 = 0x0F then str mnc_d1 @ str mnc_d2
                    else str mnc_d1 @ str mnc_d2 @ str mnc_d3)
         in if mcc \<noteq> ''FFF'' then plmns @ [mcc @ ''-'' @ mnc] else plmns))"
  by pat_completeness auto
termination
  by (relation "measure (\<lambda>(data, i, plmns). length data - i)") auto

declare plmn_loop.simps [simp del]

definition decode_plmn :: "nat list \<Rightarrow> string list" where
  "decode_plmn data = plmn_loop data 0 []"

subsection \<open>decode_bcd_number (lines 477-505)\<close>

definition digit_map :: "(nat \<times> string) list" where
  "digit_map = [(0x0A, ''*''), (0x0B, ''#''), (0x0C, ''p''), (0x0D, ''w''), (0x0E, ''+'')]"

text \<open>\<open>digit_map.get(k, default)\<close>.\<close>

definition digit_map_get :: "nat \<Rightarrow> string \<Rightarrow> string" where
  "digit_map_get k dflt = (case map_of digit_map k of Some s \<Rightarrow> s | None \<Rightarrow> dflt)"

definition bcd_step :: "string \<Rightarrow> nat \<Rightarrow> string" where
  "bcd_step number byte =
     (let low = byte AND 0x0F;
          high = drop_bit 4 byte AND 0x0F;
          number = (if low \<noteq> 0x0F then number @ digit_map_get low (str low) else number);
          number = (if high \<noteq> 0x0F then number @ digit_map_get high (str high) else number)
      in number)"

definition decode_bcd_number :: "nat list \<Rightarrow> bool \<Rightarrow> string option" where
  "decode_bcd_number data include_ton =
     (if data = [] \<or> length data < 2 then None
      else (let bcd_len = data ! 0 in
        if bcd_len = 0xFF \<or> bcd_len = 0 then None
        else (let ton_npi = data ! 1;
                  number_bytes = slice data 2 (2 + bcd_len - 1);
                  number = (if include_ton \<and> ton_npi = 0x91 then ''+'' else []);
                  number = foldl bcd_step number number_bytes
              in if number \<noteq> [] then Some number else None)))"

text \<open>What one nibble adds to a decoded number.\<close>

definition bcd_nibble :: "nat \<Rightarrow> string" where
  "bcd_nibble n = (if n \<noteq> 0x0F then digit_map_get n (str n) else [])"

subsection \<open>decode_gsm7 (lines 645-677)\<close>

text \<open>
  The table \<open>gsm7_basic\<close> as its 128 code points, in the order of the source's string
  literal; position 0x1B holds a space there.
\<close>

definition gsm7_basic :: ustring where
  "gsm7_basic =
    [0x40, 0xA3, 0x24, 0xA5, 0xE8, 0xE9, 0xF9, 0xEC, 0xF2, 0xC7, 0x0A, 0xD8, 0xF8, 0x0D, 0xC5, 0xE5,
     0x394, 0x5F, 0x3A6, 0x393, 0x39B, 0x3A9, 0x3A0, 0x3A8, 0x3A3, 0x398, 0x39E, 0x20, 0xC6, 0xE6, 0xDF, 0xC9,
     0x20, 0x21, 0x22, 0x23, 0xA4, 0x25, 0x26, 0x27, 0x28, 0x29, 0x2A, 0x2B, 0x2C, 0x2D, 0x2E, 0x2F,
     0x30, 0x31, 0x32, 0x33, 0x34, 0x35, 0x36, 0x37, 0x38, 0x39, 0x3A, 0x3B, 0x3C, 0x3D, 0x3E, 0x3F,
     0xA1, 0x41, 0x42, 0x43, 0x44, 0x45, 0x46, 0x47, 0x48, 0x49, 0x4A, 0x4B, 0x4C, 0x4D, 0x4E, 0x4F,
     0x50, 0x51, 0x52, 0x53, 0x54, 0x55, 0x56, 0x57, 0x58, 0x59, 0x5A, 0xC4, 0xD6, 0xD1, 0xDC, 0xA7,
     0xBF, 0x61, 0x62, 0x63, 0x64, 0x65, 0x66, 0x67, 0x68, 0x69, 0x6A, 0x6B, 0x6C, 0x6D, 0x6E, 0x6F,
     0x70, 0x71, 0x72, 0x73, 0x74, 0x75, 0x76, 0x77, 0x78, 0x79, 0x7A, 0xE4, 0xF6, 0xF1, 0xFC, 0xE0]"

text \<open>The table lookup of the loop body, with its placeholder for values off the table.\<close>

definition gsm7_char :: "nat \<Rightarrow> nat" where
  "gsm7_char char_val =
     (if char_val < length gsm7_basic then gsm7_basic ! char_val else of_char CHR ''?'')"

text \<open>
  The loop \<open>for i in range(num_chars)\<close>: the first argument after \<open>data\<close> counts the
  iterations left, and \<open>result\<close>, \<open>byte_pos\<close>, \<open>bit_pos\<close> are the loop's variables.
\<close>

fun gsm7_loop :: "nat list \<Rightarrow> nat \<Rightarrow> ustring \<Rightarrow> nat \<Rightarrow> nat \<Rightarrow> ustring" where
  "gsm7_loop data 0 result byte_pos bit_pos = result"
| "gsm7_loop data (Suc n) result byte_pos bit_pos =
     (if length data \<le> byte_pos then result
      else
       (let char_val = drop_bit bit_pos (data ! byte_pos) AND 0x7F;
            char_val = (if 1 < bit_pos \<and> byte_pos + 1 < length data
                        then char_val OR (push_bit (8 - bit_pos) (data ! (byte_pos + 1)) AND 0x7F)
                        else char_val);
            bit_pos = bit_pos + 7;
            byte_pos' = (if 8 \<le> bit_pos then byte_pos + 1 else byte_pos);
            bit_pos = (if 8 \<le> bit_pos then bit_pos - 8 else bit_pos)
        in gsm7_loop data n (result @ [gsm7_char char_val]) byte_pos' bit_pos))"

definition decode_gsm7 :: "nat list \<Rightarrow> nat \<Rightarrow> ustring" where
  "decode_gsm7 data num_chars = gsm7_loop data num_chars [] 0 0"

subsection \<open>decode_sms (lines 507-643)\<close>

text \<open>
  The result is \<open>Inl\<close> of the exception when the function raises, else \<open>Inr\<close> of
  what it returns. Two library functions are parameters: \<open>utf16_be\<close>, the decoding
  \<open>bytes.decode('utf-16-be', errors='replace')\<close>, and \<open>toHexString\<close> of smartcard.util.
\<close>

text \<open>
  Indexing \<open>xs[i]\<close> with a non-negative index, followed by the rest of the
  computation: Python raises IndexError when the index is out of range.
\<close>

definition at :: "'a list \<Rightarrow> nat \<Rightarrow> ('a \<Rightarrow> py_error + 'b) \<Rightarrow> py_error + 'b" where
  "at xs i k = (if i < length xs then k (xs ! i) else Inl IndexError)"

text \<open>
  An ASCII text as a text of code points.
\<close>

definition ascii :: "string \<Rightarrow> ustring" where
  "ascii s = map of_char s"

text \<open>
  The dictionary that \<open>decode_sms\<close> returns, one field per key; \<open>None\<close> is a key
  that is not set. The keys smsc, sender and recipient may hold Python's \<open>None\<close>, the
  inner option.
\<close>

record sms =
  sms_status :: string
  sms_smsc :: "string option option"
  sms_sender :: "string option option"
  sms_recipient :: "string option option"
  sms_timestamp :: "string option"
  sms_message :: "ustring option"

definition status_map :: "(nat \<times> string) list" where
  "status_map = [(0x00, ''Free''), (0x01, ''Received unread''), (0x03, ''Received read''),
                 (0x05, ''Sent unsent''), (0x07, ''Sent'')]"

text \<open>
  \<open>status_map.get(status, f"Unknown ({status})")\<close>.
\<close>

definition status_text :: "nat \<Rightarrow> string" where
  "status_text status =
     (case map_of status_map status of
        Some s \<Rightarrow> s
      | None \<Rightarrow> ''Unknown ('' @ str status @ '')'')"

text \<open>
  The dictionary \<open>{"status": ...}\<close> of the early returns.
\<close>

definition status_only :: "nat \<Rightarrow> sms" where
  "status_only status =
     \<lparr>sms_status = status_text status, sms_smsc = None, sms_sender = None,
      sms_recipient = None, sms_timestamp = None, sms_message = None\<rparr>"

text \<open>
  The format \<open>{n:02d}\<close>: at least two digits.
\<close>

definition fmt_02d :: "nat \<Rightarrow> string" where
  "fmt_02d n = (if n < 10 then ''0'' @ str n else str n)"

text \<open>
  The timestamp text; it is built only when \<open>scts\<close> has 7 bytes, so the six reads
  are in range.
\<close>

definition scts_text :: "nat list \<Rightarrow> string" where
  "scts_text scts =
     (let year = drop_bit 4 (scts ! 0) * 10 + (scts ! 0 AND 0x0F);
          month = drop_bit 4 (scts ! 1) * 10 + (scts ! 1 AND 0x0F);
          day = drop_bit 4 (scts ! 2) * 10 + (scts ! 2 AND 0x0F);
          hour = drop_bit 4 (scts ! 3) * 10 + (scts ! 3 AND 0x0F);
          minute = drop_bit 4 (scts ! 4) * 10 + (scts ! 4 AND 0x0F);
          second = drop_bit 4 (scts ! 5) * 10 + (scts ! 5 AND 0x0F)
      in ''20'' @ fmt_02d year @ ''-'' @ fmt_02d month @ ''-'' @ fmt_02d day @ '' '' @
         fmt_02d hour @ '':'' @ fmt_02d minute @ '':'' @ fmt_02d second)"

text \<open>
  The decoding of the user data by data-coding scheme, which the source writes out twice
  (lines 591-599 and 633-641). \<open>bytes(...)\<close> raises when a value is not a byte, and the
  source then falls back to the hex dump; decoding with \<open>errors='replace'\<close> does not
  raise.
\<close>

definition user_data_text ::
  "(nat list \<Rightarrow> ustring) \<Rightarrow> (nat list \<Rightarrow> string) \<Rightarrow> nat \<Rightarrow> nat \<Rightarrow> nat list \<Rightarrow> ustring" where
  "user_data_text utf16_be toHexString dcs udl ud =
     (if dcs AND 0x0C = 0x08 then
        (if list_all (\<lambda>b. b < 256) (take udl ud) then utf16_be (take udl ud)
         else ascii (''[UCS2: '' @ toHexString (take udl ud) @ '']''))
      else if dcs AND 0x0C = 0x00 then decode_gsm7 ud udl
      else ascii (''[Data: '' @ toHexString (take udl ud) @ '']''))"

text \<open>
  The branch \<open>mti == 0x00\<close> (SMS-DELIVER, lines 554-599).
\<close>

definition sms_deliver ::
  "(nat list \<Rightarrow> ustring) \<Rightarrow> (nat list \<Rightarrow> string) \<Rightarrow> nat list \<Rightarrow> sms \<Rightarrow> py_error + sms option" where
  "sms_deliver utf16_be toHexString pdu result =
     (if length pdu < 3 then Inr (Some result)
      else
        at pdu 1 (\<lambda>sender_len.
        (let sender_type = (if 2 < length pdu then pdu ! 2 else 0x81);
             sender_bytes_len = (sender_len + 1) div 2;
             sender_data = [sender_bytes_len + 1, sender_type] @ slice pdu 3 (3 + sender_bytes_len);
             sender = decode_bcd_number sender_data True;
             result = result\<lparr>sms_sender := Some sender\<rparr>;
             offset = 3 + sender_bytes_len
         in if offset + 7 < length pdu then
              at pdu offset (\<lambda>pid.
              at pdu (offset + 1) (\<lambda>dcs.
              (let scts = slice pdu (offset + 2) (offset + 9);
                   result = (if length scts = 7
                             then result\<lparr>sms_timestamp := Some (scts_text scts)\<rparr>
                             else result);
                   ud_offset = offset + 9
               in if ud_offset < length pdu then
                    at pdu ud_offset (\<lambda>udl.
                    (let ud = drop (ud_offset + 1) pdu
                     in Inr (Some (result\<lparr>sms_message :=
                          Some (user_data_text utf16_be toHexString dcs udl ud)\<rparr>))))
                  else Inr (Some result))))
            else Inr (Some result))))"

text \<open>
  The branch \<open>mti == 0x01\<close> (SMS-SUBMIT, lines 601-641).
\<close>

definition sms_submit ::
  "(nat list \<Rightarrow> ustring) \<Rightarrow> (nat list \<Rightarrow> string) \<Rightarrow> nat list \<Rightarrow> nat \<Rightarrow> sms \<Rightarrow>
   py_error + sms option" where
  "sms_submit utf16_be toHexString pdu first_octet result =
     (if length pdu < 3 then Inr (Some result)
      else
        at pdu 1 (\<lambda>mr.
        at pdu 2 (\<lambda>dest_len.
        (let dest_type = (if 3 < length pdu then pdu ! 3 else 0x81);
             dest_bytes_len = (dest_len + 1) div 2;
             dest_data = [dest_bytes_len + 1, dest_type] @ slice pdu 4 (4 + dest_bytes_len);
             dest = decode_bcd_number dest_data True;
             result = result\<lparr>sms_recipient := Some dest\<rparr>;
             offset = 4 + dest_bytes_len
         in if offset + 2 < length pdu then
              at pdu offset (\<lambda>pid.
              at pdu (offset + 1) (\<lambda>dcs.
              (let vpf = drop_bit 3 first_octet AND 0x03;
                   offset = (if vpf = 0x02 then offset + 1
                             else if vpf = 0x03 then offset + 7 else offset);
                   ud_offset = offset + 2
               in if ud_offset < length pdu then
                    at pdu ud_offset (\<lambda>udl.
                    (let ud = drop (ud_offset + 1) pdu
                     in Inr (Some (result\<lparr>sms_message :=
                          Some (user_data_text utf16_be toHexString dcs udl ud)\<rparr>))))
                  else Inr (Some result))))
            else Inr (Some result)))))"

definition decode_sms ::
  "(nat list \<Rightarrow> ustring) \<Rightarrow> (nat list \<Rightarrow> string) \<Rightarrow> nat list \<Rightarrow> py_error + sms option" where
  "decode_sms utf16_be toHexString data =
     (if data = [] \<or> length data < 1 then Inr None
      else
        at data 0 (\<lambda>status.
        if status = 0x00 \<or> status = 0xFF then Inr None
        else
          at data 1 (\<lambda>smsc_len.
          (let (smsc, pdu_start) =
                 (if 0 < smsc_len \<and> smsc_len \<noteq> 0xFF
                  then (decode_bcd_number ([smsc_len] @ slice data 2 (2 + smsc_len)) True,
                        2 + smsc_len)
                  else (None, 2))
           in if length data \<le> pdu_start then Inr (Some (status_only status))
              else
                (let pdu = drop pdu_start data
                 in if length pdu < 2 then Inr (Some (status_only status))
                    else
                      at pdu 0 (\<lambda>first_octet.
                      (let mti = first_octet AND 0x03;
                           result = (status_only status)\<lparr>sms_smsc := Some smsc\<rparr>
                       in if mti = 0x00 then sms_deliver utf16_be toHexString pdu result
                          else if mti = 0x01
                            then sms_submit utf16_be toHexString pdu first_octet result
                          else Inr (Some result))))))))"

subsection \<open>The transport and the session (lines 31-59)\<close>

text \<open>
  The card answers a command with data and the two status bytes. \<open>connection.transmit\<close>
  is outside the program: it is a parameter \<open>tr\<close>, a function from the state of the card
  and a command to the response and the next state. The session holds the state of the
  card; \<open>exchanges\<close> is a ghost field that records every command sent with its response,
  in order, so that theorems can say which commands were issued.
\<close>

type_synonym response = "nat list \<times> nat \<times> nat"

type_synonym 'c transport = "'c \<Rightarrow> nat list \<Rightarrow> response \<times> 'c"

record 'c sim_reader =
  connection :: 'c
  exchanges :: "(nat list \<times> response) list"

definition send_apdu :: "'c transport \<Rightarrow> 'c sim_reader \<Rightarrow> nat list \<Rightarrow> response \<times> 'c sim_reader" where
  "send_apdu tr s apdu =
     (let (r, c) = tr (connection s) apdu
      in (r, s\<lparr>connection := c, exchanges := exchanges s @ [(apdu, r)]\<rparr>))"

subsection \<open>Commands (lines 61-94, 169-195)\<close>

text \<open>
  The \<open>debug\<close> flag of the two selections only prints and is left out.
\<close>

definition select_file_gsm :: "'c transport \<Rightarrow> 'c sim_reader \<Rightarrow> nat \<Rightarrow> response \<times> 'c sim_reader" where
  "select_file_gsm tr s file_id =
     (let apdu = [0xA0, 0xA4, 0x00, 0x00, 0x02, drop_bit 8 file_id AND 0xFF, file_id AND 0xFF];
          ((data, sw1, sw2), s) = send_apdu tr s apdu
      in if sw1 = 0x9F then
           (let apdu = [0xA0, 0xC0, 0x00, 0x00, sw2];
                ((data, sw1, sw2), s) = send_apdu tr s apdu
            in ((data, sw1, sw2), s))
         else ((data, sw1, sw2), s))"

definition read_binary :: "'c transport \<Rightarrow> 'c sim_reader \<Rightarrow> nat \<Rightarrow> nat \<Rightarrow> response \<times> 'c sim_reader" where
  "read_binary tr s len offset =
     (let apdu = [0xA0, 0xB0, drop_bit 8 offset AND 0xFF, offset AND 0xFF, len];
          ((data, sw1, sw2), s) = send_apdu tr s apdu
      in if sw1 = 0x9F then
           (let apdu = [0xA0, 0xC0, 0x00, 0x00, sw2];
                ((data, sw1, sw2), s) = send_apdu tr s apdu
            in ((data, sw1, sw2), s))
         else ((data, sw1, sw2), s))"

definition read_record :: "'c transport \<Rightarrow> 'c sim_reader \<Rightarrow> nat \<Rightarrow> nat \<Rightarrow> response \<times> 'c sim_reader" where
  "read_record tr s record_num len =
     (let apdu = [0xA0, 0xB2, record_num, 0x04, len]
      in send_apdu tr s apdu)"

definition select_file_usim :: "'c transport \<Rightarrow> 'c sim_reader \<Rightarrow> nat \<Rightarrow> response \<times> 'c sim_reader" where
  "select_file_usim tr s file_id =
     (let apdu = [0x00, 0xA4, 0x00, 0x04, 0x02, drop_bit 8 file_id AND 0xFF, file_id AND 0xFF];
          ((data, sw1, sw2), s) = send_apdu tr s apdu
      in if sw1 = 0x61 then
           (let apdu = [0x00, 0xC0, 0x00, 0x00, sw2];
                ((data, sw1, sw2), s) = send_apdu tr s apdu
            in ((data, sw1, sw2), s))
         else ((data, sw1, sw2), s))"

definition read_record_usim :: "'c transport \<Rightarrow> 'c sim_reader \<Rightarrow> nat \<Rightarrow> nat \<Rightarrow> response \<times> 'c sim_reader" where
  "read_record_usim tr s record_num len =
     (let apdu = [0x00, 0xB2, record_num, 0x04, len]
      in send_apdu tr s apdu)"

text \<open>
  The command that \<open>read_record\<close> or \<open>read_record_usim\<close> sends, by dialect.
\<close>

definition read_record_cmd :: "bool \<Rightarrow> nat \<Rightarrow> nat \<Rightarrow> nat list" where
  "read_record_cmd use_usim record_num len =
     (if use_usim then [0x00, 0xB2, record_num, 0x04, len] else [0xA0, 0xB2, record_num, 0x04, len])"

(* a test card *)

subsection \<open>read_all: the ICCID section (lines 690-697)\<close>

text \<open>
  The tests \<open>sw1 in [0x90, 0x9F, 0x91]\<close> that follow every selection of read_all, and
  \<open>sw1 in [0x90, 0x9F, 0x91, 0x61]\<close> that precedes every record walk (lines 902, 969,
  1010, 1051, 1097).
\<close>

definition select_accepted :: "nat \<Rightarrow> bool" where
  "select_accepted sw1 = (sw1 \<in> set [0x90, 0x9F, 0x91])"

definition record_file_accepted :: "nat \<Rightarrow> bool" where
  "record_file_accepted sw1 = (sw1 \<in> set [0x90, 0x9F, 0x91, 0x61])"

text \<open>
  The result is the value assigned to \<open>self.iccid\<close>, if any; the prints are left out.
\<close>

definition read_all_iccid :: "'c transport \<Rightarrow> 'c sim_reader \<Rightarrow> string option \<times> 'c sim_reader" where
  "read_all_iccid tr s =
     (let (r, s) = select_file_gsm tr s 0x3F00;
          ((data, sw1, sw2), s) = select_file_gsm tr s 0x2FE2
      in if select_accepted sw1 then
           (let ((data, sw1, sw2), s) = read_binary tr s 10 0
            in if sw1 = 0x90 then (Some (decode_iccid data), s) else (None, s))
         else (None, s))"

subsection \<open>read_all: the record walk of the contacts (lines 931-952)\<close>

text \<open>
  The loop \<open>for rec in range(1, min(num_records + 1, 251))\<close> over the list of its
  indices. \<open>produced\<close> collects the records that reach the decoding stage (lines
  941-948) with their index: those read with \<open>sw1 == 0x90\<close>, not empty and not all
  0xFF. Decoding and printing them is not part of the walk and is left out.
\<close>

fun contacts_loop ::
  "'c transport \<Rightarrow> bool \<Rightarrow> nat \<Rightarrow> nat list \<Rightarrow> 'c sim_reader \<Rightarrow> (nat \<times> nat list) list \<Rightarrow>
   'c sim_reader \<times> (nat \<times> nat list) list" where
  "contacts_loop tr use_usim record_len [] s produced = (s, produced)"
| "contacts_loop tr use_usim record_len (rec # recs) s produced =
     (let ((data, sw1, sw2), s) =
            (if use_usim then read_record_usim tr s rec record_len
             else read_record tr s rec record_len)
      in if sw1 = 0x90 \<and> data \<noteq> [] then
           (if list_all (\<lambda>b. b = 0xFF) data
              then contacts_loop tr use_usim record_len recs s produced
            else contacts_loop tr use_usim record_len recs s (produced @ [(rec, data)]))
         else if sw1 = 0x6A \<and> sw2 = 0x83 then (s, produced)
         else contacts_loop tr use_usim record_len recs s produced)"

declare contacts_loop.simps [simp del]

definition read_all_contacts ::
  "'c transport \<Rightarrow> bool \<Rightarrow> nat \<Rightarrow> nat \<Rightarrow> 'c sim_reader \<Rightarrow> 'c sim_reader \<times> (nat \<times> nat list) list" where
  "read_all_contacts tr use_usim record_len num_records s =
     contacts_loop tr use_usim record_len [1..<min (num_records + 1) 251] s []"

subsection \<open>Outcome classification\<close>

text \<open>
  Modelled from the spec: the source has no classification function, it tests the two
  status bytes where it needs them. Section 4.1 of the spec: 90 00 is Success; 9F xx or
  61 xx is MoreDataAvailable(xx); 6A 83 is NotFound; any other combination is OtherError,
  carrying both bytes. (RetryWithLength of section 3 has no rule in section 4.1.)
\<close>

datatype status_outcome = Success | MoreDataAvailable nat | NotFound | OtherError nat nat

definition classifyOutcome :: "nat \<Rightarrow> nat \<Rightarrow> status_outcome" where
  "classifyOutcome sw1 sw2 =
     (if sw1 = 0x90 \<and> sw2 = 0x00 then Success
      else if sw1 = 0x9F \<or> sw1 = 0x61 then MoreDataAvailable sw2
      else if sw1 = 0x6A \<and> sw2 = 0x83 then NotFound
      else OtherError sw1 sw2)"

subsection \<open>Example cards\<close>

text \<open>
  A card that answers a selection with "more data" as each dialect signals it, and any
  other command with as many zero bytes as asked for.
\<close>

definition card9F :: "nat transport" where
  "card9F c apdu =
     (if apdu ! 1 = 0xA4 then (([], if apdu ! 0 = 0xA0 then 0x9F else 0x61, 0x0F), c + 1)
      else ((replicate (apdu ! 4) 0, 0x90, 0x00), c + 1))"

text \<open>
  A card that answers a selection with the other dialect's "more data" status.
\<close>

definition card_swapped :: "nat transport" where
  "card_swapped c apdu =
     (if apdu ! 1 = 0xA4 then (([], if apdu ! 0 = 0xA0 then 0x61 else 0x9F, 0x0F), c + 1)
      else ((replicate (apdu ! 4) 0, 0x90, 0x00), c + 1))"

text \<open>
  A card with four 4-byte records: three in use, the fourth unused.
\<close>

definition card_walk :: "nat transport" where
  "card_walk c apdu =
     (if apdu ! 2 \<in> set [1, 2, 3] then (([apdu ! 2, 0x81, 0x21, 0x43], 0x90, 0x00), c + 1)
      else if apdu ! 2 = 4 then (([0xFF, 0xFF, 0xFF, 0xFF], 0x90, 0x00), c + 1)
      else (([], 0x6A, 0x83), c + 1))"

text \<open>
  A card whose first two records cannot be read and whose third holds data.
\<close>

definition card_errors :: "nat transport" where
  "card_errors c apdu =
     (if apdu ! 2 = 1 then (([], 0x98, 0x04), c + 1)
      else if apdu ! 2 = 2 then (([], 0x6A, 0x82), c + 1)
      else if apdu ! 2 = 3 then (([0x02, 0x81, 0x21, 0xFF], 0x90, 0x00), c + 1)
      else (([], 0x6A, 0x83), c + 1))"

text \<open>
  A card whose first record is read with data and the status 90 83, and which has no
  other record.
\<close>

definition card_9083 :: "nat transport" where
  "card_9083 c apdu =
     (if apdu ! 2 = 1 then (([0x02, 0x81, 0x21, 0xFF], 0x90, 0x83), c + 1)
      else (([], 0x6A, 0x83), c + 1))"

text \<open>
  A card that answers every selection with 91 00 and every read with a serial number.
\<close>

definition card91 :: "nat transport" where
  "card91 c apdu =
     (if apdu ! 1 = 0xA4 then (([], 0x91, 0x00), c + 1)
      else (([0x98, 0x10, 0x32, 0x54, 0x76, 0x98, 0x10, 0x32, 0x54, 0xF6], 0x90, 0x00), c + 1))"

section \<open>Properties\<close>

subsection \<open>Nibbles\<close>

lemma and_15_mod: "(x::nat) AND 15 = x mod 16"
  using take_bit_eq_mask [of 4 x] by (simp add: take_bit_eq_mod mask_eq_exp_minus_1)

lemma drop_4_div: "drop_bit 4 (x::nat) = x div 16"
  by (simp add: drop_bit_eq_div)

lemma str_digit: "n < 10 \<Longrightarrow> str n = [digit_char n]"
  by (simp add: str.simps)

lemma digit_val_digit_char: "n < 10 \<Longrightarrow> digit_val (digit_char n) = n"
proof -
  assume "n < 10"
  then have "n \<in> {0, 1, 2, 3, 4, 5, 6, 7, 8, 9}" by auto
  then show ?thesis by (auto simp: digit_val_def digit_char_def)
qed

lemma byte_of_nibbles: "b < 256 \<Longrightarrow> (b mod 16) OR push_bit 4 (b div 16 mod 16) = (b::nat)"
proof -
  assume b: "b < 256"
  have "(b mod 16) OR push_bit 4 (b div 16 mod 16) = take_bit 4 b OR push_bit 4 (drop_bit 4 b)"
    using b by (simp add: take_bit_eq_mod drop_bit_eq_div)
  also have "\<dots> = b"
  proof (rule bit_eqI)
    fix n
    show "bit (take_bit 4 b OR push_bit 4 (drop_bit 4 b)) n = bit b n"
      by (cases "n < 4") (auto simp: bit_simps)
  qed
  finally show ?thesis .
qed

subsection \<open>decode_iccid\<close>

lemma iccid_step_decimal:
  "decimal_byte b \<Longrightarrow>
   iccid_step acc b = acc @ [digit_char (b mod 16), digit_char (b div 16 mod 16)]"
  by (simp add: iccid_step_def decimal_byte_def and_15_mod drop_4_div str_digit Let_def)

lemma foldl_iccid_decimal:
  "list_all decimal_byte buf \<Longrightarrow>
   foldl iccid_step acc buf =
     acc @ concat (map (\<lambda>b. [digit_char (b mod 16), digit_char (b div 16 mod 16)]) buf)"
  by (induction buf arbitrary: acc) (simp_all add: iccid_step_decimal)

lemma encode_pairs:
  "list_all decimal_byte buf \<Longrightarrow>
   encode_semi_octet
     (concat (map (\<lambda>b. [digit_char (b mod 16), digit_char (b div 16 mod 16)]) buf)) = buf"
proof (induction buf)
  case Nil
  show ?case by simp
next
  case (Cons b buf)
  then have d: "decimal_byte b" and rest: "list_all decimal_byte buf" by simp_all
  from d have "b < 256" "b mod 16 < 10" "b div 16 mod 16 < 10"
    by (simp_all add: decimal_byte_def and_15_mod drop_4_div)
  then have "digit_val (digit_char (b mod 16)) OR
      push_bit 4 (digit_val (digit_char (b div 16 mod 16))) = b"
    by (simp only: digit_val_digit_char byte_of_nibbles)
  with Cons.IH [OF rest] show ?case by simp
qed

text \<open>
  C9, as amended: for every byte buffer in which every nibble is a decimal digit
  (0 to 9), decoding the buffer with the shared semi-octet routine (low nibble first,
  then high nibble, per byte) and re-encoding the digit string under the same nibble
  order gives back the buffer.
\<close>

theorem iccid_roundtrip_decimal:
  "list_all decimal_byte buf \<Longrightarrow> encode_semi_octet (decode_iccid buf) = buf"
  by (simp add: decode_iccid_def foldl_iccid_decimal encode_pairs)

text \<open>The amended C9 at the buffer 0x98 0x10 0x32, which decodes to 890123.\<close>

theorem iccid_roundtrip_decimal_witness:
  "list_all decimal_byte [0x98, 0x10, 0x32] \<and>
   decode_iccid [0x98, 0x10, 0x32] = ''890123'' \<and>
   encode_semi_octet (decode_iccid [0x98, 0x10, 0x32]) = [0x98, 0x10, 0x32]"
proof -
  have h: "list_all decimal_byte [0x98, 0x10, 0x32]"
    by (simp add: decimal_byte_def)
  have "decode_iccid [0x98, 0x10, 0x32] = ''890123''"
    by (simp add: decode_iccid_def iccid_step_def str.simps digit_char_def)
  with h iccid_roundtrip_decimal [OF h] show ?thesis by simp
qed

text \<open>
  C9 as stated fails: the one-byte buffer 0xAA has no filler nibble, yet each of its
  nibbles is printed as the two characters 10, so that it decodes to 1010, the digit
  string of the buffer 0x01 0x01, and re-encoding gives that buffer.
\<close>

theorem iccid_roundtrip_counterexample:
  "list_all no_filler [0xAA] \<and>
   decode_iccid [0xAA] = decode_iccid [0x01, 0x01] \<and>
   encode_semi_octet (decode_iccid [0xAA]) \<noteq> [0xAA]"
  by (simp add: no_filler_def decode_iccid_def iccid_step_def str.simps digit_char_def
      digit_val_def)

subsection \<open>decode_imsi\<close>

lemma imsi_step_beyond: "length data \<le> i \<Longrightarrow> imsi_step data acc i = acc"
  by (simp add: imsi_step_def)

lemma imsi_step_first:
  "1 < length data \<Longrightarrow>
   imsi_step data acc 1 = acc @ nibble_digits (drop_bit 4 (data ! 1) AND 0x0F)"
  by (simp add: imsi_step_def nibble_digits_def Let_def)

lemma imsi_step_later:
  "2 \<le> i \<Longrightarrow> i < length data \<Longrightarrow> imsi_step data acc i = acc @ semi_octet (data ! i)"
  by (simp add: imsi_step_def nibble_digits_def semi_octet_def Let_def)

lemma foldl_imsi_beyond:
  "length data \<le> a \<Longrightarrow> foldl (imsi_step data) acc [a..<b] = acc"
  by (induction b) (simp_all add: imsi_step_beyond)

lemma foldl_imsi_later:
  "2 \<le> a \<Longrightarrow> b \<le> length data \<Longrightarrow>
   foldl (imsi_step data) acc [a..<b] = acc @ concat (map (\<lambda>i. semi_octet (data ! i)) [a..<b])"
  by (induction b) (simp_all add: imsi_step_later)

lemma map_nth_slice:
  "b \<le> length data \<Longrightarrow> map ((!) data) [a..<b] = slice data a b"
  unfolding slice_def by (rule nth_equalityI) auto

lemma foldl_imsi_range:
  assumes "9 \<le> length data" "0 < len"
  shows "foldl (imsi_step data) [] [1..<len + 1] =
     nibble_digits (drop_bit 4 (data ! 1) AND 0x0F) @
     concat (map semi_octet (slice data 2 (min len (length data - 1) + 1)))"
proof -
  define m where "m = min len (length data - 1) + 1"
  have m: "2 \<le> m" "m \<le> length data" "m \<le> len + 1"
    using assms by (auto simp: m_def)
  have "[1..<len + 1] = [1..<m] @ [m..<len + 1]"
    using m upt_add_eq_append [of 1 m "len + 1 - m"] by simp
  moreover have "[1..<m] = 1 # [2..<m]"
    using m upt_conv_Cons [of 1 m] by (simp add: numeral_2_eq_2)
  ultimately have "foldl (imsi_step data) [] [1..<len + 1] =
      foldl (imsi_step data) (foldl (imsi_step data) (imsi_step data [] 1) [2..<m]) [m..<len + 1]"
    by simp
  also have "\<dots> = foldl (imsi_step data) (imsi_step data [] 1) [2..<m]"
  proof (cases "m = length data")
    case True
    then show ?thesis by (intro foldl_imsi_beyond) simp
  next
    case False
    with m have "m = len + 1" by (auto simp: m_def)
    then show ?thesis by simp
  qed
  also have "\<dots> = imsi_step data [] 1 @ concat (map (\<lambda>i. semi_octet (data ! i)) [2..<m])"
    using m by (simp add: foldl_imsi_later)
  also have "map (\<lambda>i. semi_octet (data ! i)) [2..<m] = map semi_octet (map ((!) data) [2..<m])"
    by simp
  also have "map ((!) data) [2..<m] = slice data 2 m"
    using m by (rule_tac map_nth_slice) simp
  finally have "foldl (imsi_step data) [] [1..<len + 1] =
      imsi_step data [] 1 @ concat (map semi_octet (slice data 2 m))" .
  moreover have "imsi_step data [] 1 = nibble_digits (drop_bit 4 (data ! 1) AND 0x0F)"
    using assms imsi_step_first [of data "[]"] by simp
  ultimately show ?thesis
    unfolding m_def by (simp only:)
qed

text \<open>
  C6, as amended: for every input buffer of at least 9 bytes, the identity-number (IMSI)
  decoder reads the first byte as a count of bytes, not of digits, and returns the
  semi-octet decoding of that many bytes after it, as far as the buffer reaches: the
  high nibble of the second byte, then for each following byte its low nibble before
  its high nibble, where a nibble 0xF gives nothing and any other nibble is printed as
  its decimal numeral. A count of 0 gives the empty string.
\<close>

theorem decode_imsi_bytes:
  assumes "9 \<le> length data"
  shows "decode_imsi data =
     Some (if data ! 0 = 0 then []
           else nibble_digits (drop_bit 4 (data ! 1) AND 0x0F) @
                concat (map (\<lambda>b. nibble_digits (b AND 0x0F) @ nibble_digits (drop_bit 4 b AND 0x0F))
                  (slice data 2 (min (data ! 0) (length data - 1) + 1))))"
proof (cases "data ! 0 = 0")
  case True
  with assms show ?thesis by (simp add: decode_imsi_def)
next
  case False
  then have "0 < data ! 0" by simp
  from foldl_imsi_range [OF assms this] False assms show ?thesis
    by (simp add: decode_imsi_def semi_octet_def [abs_def])
qed

text \<open>The amended C6 at a record holding the 15 digits 234500201234567.\<close>

theorem decode_imsi_bytes_witness:
  "9 \<le> length [8, 0x29, 0x43, 0x05, 0x20, 0x10, 0x32, 0x54, 0x76 :: nat] \<and>
   decode_imsi [8, 0x29, 0x43, 0x05, 0x20, 0x10, 0x32, 0x54, 0x76] = Some ''234500201234567''"
proof -
  have h: "9 \<le> length [8, 0x29, 0x43, 0x05, 0x20, 0x10, 0x32, 0x54, 0x76 :: nat]" by simp
  show ?thesis
    using decode_imsi_bytes [OF h]
    by (simp add: slice_def nibble_digits_def str.simps digit_char_def)
qed

text \<open>
  C6 as stated fails: in this 9-byte buffer the first byte is 8, and the decoder returns
  15 digits, not 8.
\<close>

theorem decode_imsi_count_counterexample:
  "9 \<le> length [8, 0x29, 0x43, 0x05, 0x20, 0x10, 0x32, 0x54, 0x76 :: nat] \<and>
   [8, 0x29, 0x43, 0x05, 0x20, 0x10, 0x32, 0x54, 0x76 :: nat] ! 0 = 8 \<and>
   map_option length (decode_imsi [8, 0x29, 0x43, 0x05, 0x20, 0x10, 0x32, 0x54, 0x76]) = Some 15"
  by code_simp

subsection \<open>decode_plmn\<close>

text \<open>
  C7, at the input on which the code departs from it: the group 0xFF 0xFF 0x64 has the
  three country-code nibbles 0xF, and the decoder emits the entry 151515-46 for it,
  because the country code is printed in decimal before it is compared with the text
  FFF. A group of three 0xFF bytes gives no entry, as the claim says.
\<close>

theorem decode_plmn_filler_mcc:
  "decode_plmn [0xFF, 0xFF, 0x64] = [''151515-46''] \<and>
   decode_plmn [0xFF, 0xFF, 0xFF] = [] \<and>
   decode_plmn [0x21, 0xF3, 0x64] = [''123-46'']"
  by (simp add: decode_plmn_def plmn_loop.simps str.simps digit_char_def)

subsection \<open>decode_bcd_number\<close>

lemma bcd_step_nibbles:
  "bcd_step number byte =
     number @ bcd_nibble (byte AND 0x0F) @ bcd_nibble (drop_bit 4 byte AND 0x0F)"
  by (simp add: bcd_step_def bcd_nibble_def Let_def)

lemma foldl_bcd_step:
  "foldl bcd_step number bs =
     number @ concat (map (\<lambda>b. bcd_nibble (b AND 0x0F) @ bcd_nibble (drop_bit 4 b AND 0x0F)) bs)"
  by (induction bs arbitrary: number) (simp_all add: bcd_step_nibbles)

lemma bcd_nibble_table:
  "map bcd_nibble [0, 1, 2, 3, 4, 5, 6, 7, 8, 9] = map (\<lambda>c. [c]) ''0123456789'' \<and>
   map bcd_nibble [0x0A, 0x0B, 0x0C, 0x0D, 0x0E, 0x0F] = [''*'', ''#'', ''p'', ''w'', ''+'', []]"
  by (simp add: bcd_nibble_def digit_map_get_def digit_map_def str.simps digit_char_def)

text \<open>
  C10: whenever the BCD number decoder gets past its length checks, the number is the
  optional international prefix followed by what each nibble of the number bytes adds,
  low nibble before high nibble; the nibbles 0 to 9 add their digit, the nibbles 0xA,
  0xB, 0xC, 0xD, 0xE add the characters *, #, p, w, + and only the nibble 0xF adds
  nothing.
\<close>

theorem decode_bcd_number_nibbles:
  assumes "2 \<le> length data" "data ! 0 \<noteq> 0" "data ! 0 \<noteq> 0xFF"
  shows "decode_bcd_number data include_ton =
     (let number = (if include_ton \<and> data ! 1 = 0x91 then ''+'' else []) @
            concat (map (\<lambda>b. bcd_nibble (b AND 0x0F) @ bcd_nibble (drop_bit 4 b AND 0x0F))
              (take (data ! 0 - 1) (drop 2 data)))
      in if number = [] then None else Some number) \<and>
   map bcd_nibble [0, 1, 2, 3, 4, 5, 6, 7, 8, 9] = map (\<lambda>c. [c]) ''0123456789'' \<and>
   map bcd_nibble [0x0A, 0x0B, 0x0C, 0x0D, 0x0E, 0x0F] = [''*'', ''#'', ''p'', ''w'', ''+'', []]"
proof -
  have "data \<noteq> []" using assms by auto
  moreover have "slice data 2 (2 + data ! 0 - 1) = take (data ! 0 - 1) (drop 2 data)"
    by (simp add: slice_def)
  ultimately have "decode_bcd_number data include_ton =
     (let number = (if include_ton \<and> data ! 1 = 0x91 then ''+'' else []) @
            concat (map (\<lambda>b. bcd_nibble (b AND 0x0F) @ bcd_nibble (drop_bit 4 b AND 0x0F))
              (take (data ! 0 - 1) (drop 2 data)))
      in if number = [] then None else Some number)"
    using assms by (simp add: decode_bcd_number_def foldl_bcd_step Let_def)
  with bcd_nibble_table show ?thesis
    by simp
qed

text \<open>C10 at a number made of the five non-decimal nibbles and a final filler.\<close>

theorem decode_bcd_number_nibbles_witness:
  "2 \<le> length [4, 0x81, 0xBA, 0xDC, 0xFE :: nat] \<and>
   [4, 0x81, 0xBA, 0xDC, 0xFE :: nat] ! 0 \<noteq> 0 \<and>
   [4, 0x81, 0xBA, 0xDC, 0xFE :: nat] ! 0 \<noteq> 0xFF \<and>
   decode_bcd_number [4, 0x81, 0xBA, 0xDC, 0xFE] True = Some ''*#pw+''"
proof -
  have h: "2 \<le> length [4, 0x81, 0xBA, 0xDC, 0xFE :: nat]"
    "[4, 0x81, 0xBA, 0xDC, 0xFE :: nat] ! 0 \<noteq> 0"
    "[4, 0x81, 0xBA, 0xDC, 0xFE :: nat] ! 0 \<noteq> 0xFF" by simp_all
  show ?thesis
    using decode_bcd_number_nibbles [OF h, of True]
    by (simp add: bcd_nibble_def digit_map_get_def digit_map_def str.simps digit_char_def)
qed

subsection \<open>decode_gsm7\<close>

lemma gsm7_basic_length: "length gsm7_basic = 128"
  by (simp add: gsm7_basic_def)

lemma and_127_mod: "(x::nat) AND 127 = x mod 128"
  using take_bit_eq_mask [of 7 x] by (simp add: take_bit_eq_mod mask_eq_exp_minus_1)

lemma or_low_bit: "x < 2 \<Longrightarrow> x OR (2 * y) = x + 2 * (y::nat)"
proof -
  assume "x < 2"
  then consider "x = 0" | "x = 1" by linarith
  then show ?thesis
  proof cases
    case 1
    then show ?thesis by simp
  next
    case 2
    have "(1::nat) OR 2 * y = 2 * y + of_bool (even (2 * y))"
      by (rule one_or_eq)
    with 2 show ?thesis by simp
  qed
qed

lemma straddle_value:
  assumes "b0 < (256::nat)"
  shows "drop_bit 7 b0 AND 0x7F OR (push_bit 1 b1 AND 0x7F) = b0 div 128 + 2 * (b1 mod 64)"
proof -
  have "drop_bit 7 b0 AND 0x7F = b0 div 128"
    using assms by (simp add: and_127_mod drop_bit_eq_div)
  moreover have "push_bit 1 b1 AND 0x7F = 2 * (b1 mod 64)"
  proof -
    have "push_bit 1 b1 AND 0x7F = 2 * b1 mod (2 * 64)"
      by (simp add: and_127_mod push_bit_eq_mult mult.commute)
    also have "\<dots> = 2 * (b1 mod 64)"
      by (rule mult_mod_right [symmetric])
    finally show ?thesis .
  qed
  moreover have "b0 div 128 < 2"
    using assms by simp
  ultimately show ?thesis
    by (simp only: or_low_bit)
qed

text \<open>
  C8: on the one-byte buffer 0x31 with one character requested, the packed 7-bit decoder
  returns the character at table index 0x31 AND 0x7F, the digit 1. On a request for two
  characters from a buffer of at least two bytes, the second character starts at bit 7
  of the first byte and straddles the byte boundary: its value has that bit as its
  lowest bit and the six low bits of the next byte above it; the first character is the
  seven low bits of the first byte.
\<close>

theorem decode_gsm7_straddle:
  "decode_gsm7 [0x31] 1 = [gsm7_basic ! (0x31 AND 0x7F)] \<and>
   gsm7_basic ! (0x31 AND 0x7F) = of_char CHR ''1'' \<and>
   (b0 < 256 \<longrightarrow>
      decode_gsm7 (b0 # b1 # rest) 2 =
        [gsm7_basic ! (b0 mod 128), gsm7_basic ! (b0 div 128 + 2 * (b1 mod 64))])"
proof (intro conjI impI)
  show "decode_gsm7 [0x31] 1 = [gsm7_basic ! (0x31 AND 0x7F)]"
    by (simp add: decode_gsm7_def gsm7_char_def gsm7_basic_length)
  show "gsm7_basic ! (0x31 AND 0x7F) = of_char CHR ''1''"
    by (simp add: gsm7_basic_def)
  assume b0: "b0 < 256"
  have "b0 div 128 + 2 * (b1 mod 64) < 128"
  proof -
    have "b0 div 128 < 2" using b0 by simp
    moreover have "b1 mod 64 < 64" by simp
    ultimately show ?thesis by linarith
  qed
  then have c2: "gsm7_char (b0 div 128 + 2 * (b1 mod 64)) =
      gsm7_basic ! (b0 div 128 + 2 * (b1 mod 64))"
    by (simp add: gsm7_char_def gsm7_basic_length)
  have c1: "gsm7_char (b0 AND 0x7F) = gsm7_basic ! (b0 mod 128)"
    by (simp add: gsm7_char_def gsm7_basic_length and_127_mod)
  have "decode_gsm7 (b0 # b1 # rest) 2 =
      [gsm7_char (b0 AND 0x7F), gsm7_char (drop_bit 7 b0 AND 0x7F OR (push_bit 1 b1 AND 0x7F))]"
    by (simp add: decode_gsm7_def numeral_2_eq_2)
  then show "decode_gsm7 (b0 # b1 # rest) 2 =
      [gsm7_basic ! (b0 mod 128), gsm7_basic ! (b0 div 128 + 2 * (b1 mod 64))]"
    by (simp only: straddle_value [OF b0] c1 c2)
qed

text \<open>C8 at the two bytes 0xC8 0x34, the packed form of the text Hi.\<close>

theorem decode_gsm7_straddle_witness:
  "(0xC8::nat) < 256 \<and> decode_gsm7 [0xC8, 0x34] 2 = map of_char ''Hi''"
proof -
  have "gsm7_basic ! (0xC8 mod 128) = of_char CHR ''H''"
    "gsm7_basic ! (0xC8 div 128 + 2 * (0x34 mod 64)) = of_char CHR ''i''"
    by (simp_all add: gsm7_basic_def)
  then show ?thesis
    using decode_gsm7_straddle [of "0xC8" "0x34" "[]"] by simp
qed

subsection \<open>Selection and GET RESPONSE\<close>

text \<open>
  C3, as amended: a file selection is followed by GET RESPONSE when its status is "more
  data" as the dialect of the selection signals it: SW1 = 0x9F under the Legacy dialect
  (class 0xA0), SW1 = 0x61 under the UsimADF dialect (class 0x00). Then exactly one GET
  RESPONSE of the same class asking for exactly SW2 bytes is sent next, and its response
  is the result of the selection. For any other SW1 the selection sends nothing more and
  its own response is the result.
\<close>

theorem select_get_response:
  "(tr (connection s) [0xA0, 0xA4, 0x00, 0x00, 0x02, drop_bit 8 file_id AND 0xFF, file_id AND 0xFF]
      = ((d, 0x9F, xx), c1) \<longrightarrow>
    select_file_gsm tr s file_id =
      (fst (tr c1 [0xA0, 0xC0, 0x00, 0x00, xx]),
       s\<lparr>connection := snd (tr c1 [0xA0, 0xC0, 0x00, 0x00, xx]),
         exchanges := exchanges s @
           [([0xA0, 0xA4, 0x00, 0x00, 0x02, drop_bit 8 file_id AND 0xFF, file_id AND 0xFF], (d, 0x9F, xx)),
            ([0xA0, 0xC0, 0x00, 0x00, xx], fst (tr c1 [0xA0, 0xC0, 0x00, 0x00, xx]))]\<rparr>)) \<and>
   (tr (connection s) [0x00, 0xA4, 0x00, 0x04, 0x02, drop_bit 8 file_id AND 0xFF, file_id AND 0xFF]
      = ((d, 0x61, xx), c1) \<longrightarrow>
    select_file_usim tr s file_id =
      (fst (tr c1 [0x00, 0xC0, 0x00, 0x00, xx]),
       s\<lparr>connection := snd (tr c1 [0x00, 0xC0, 0x00, 0x00, xx]),
         exchanges := exchanges s @
           [([0x00, 0xA4, 0x00, 0x04, 0x02, drop_bit 8 file_id AND 0xFF, file_id AND 0xFF], (d, 0x61, xx)),
            ([0x00, 0xC0, 0x00, 0x00, xx], fst (tr c1 [0x00, 0xC0, 0x00, 0x00, xx]))]\<rparr>)) \<and>
   (tr (connection s) [0xA0, 0xA4, 0x00, 0x00, 0x02, drop_bit 8 file_id AND 0xFF, file_id AND 0xFF]
      = ((d, sw1, xx), c1) \<and> sw1 \<noteq> 0x9F \<longrightarrow>
    select_file_gsm tr s file_id =
      ((d, sw1, xx),
       s\<lparr>connection := c1,
         exchanges := exchanges s @
           [([0xA0, 0xA4, 0x00, 0x00, 0x02, drop_bit 8 file_id AND 0xFF, file_id AND 0xFF], (d, sw1, xx))]\<rparr>)) \<and>
   (tr (connection s) [0x00, 0xA4, 0x00, 0x04, 0x02, drop_bit 8 file_id AND 0xFF, file_id AND 0xFF]
      = ((d, sw1, xx), c1) \<and> sw1 \<noteq> 0x61 \<longrightarrow>
    select_file_usim tr s file_id =
      ((d, sw1, xx),
       s\<lparr>connection := c1,
         exchanges := exchanges s @
           [([0x00, 0xA4, 0x00, 0x04, 0x02, drop_bit 8 file_id AND 0xFF, file_id AND 0xFF], (d, sw1, xx))]\<rparr>))"
  by (auto simp: select_file_gsm_def select_file_usim_def send_apdu_def Let_def split: prod.splits)

text \<open>
  The amended C3 on a card that signals "more data" to each dialect in its own way, and on
  one that answers the UsimADF selection with 9F 0F.
\<close>

theorem select_get_response_witness:
  "select_file_gsm card9F \<lparr>connection = 0, exchanges = []\<rparr> 0x6F3A =
     ((replicate 15 0, 0x90, 0x00),
      \<lparr>connection = 2,
       exchanges = [([0xA0, 0xA4, 0x00, 0x00, 0x02, 0x6F, 0x3A], ([], 0x9F, 0x0F)),
                    ([0xA0, 0xC0, 0x00, 0x00, 0x0F], (replicate 15 0, 0x90, 0x00))]\<rparr>) \<and>
   select_file_usim card9F \<lparr>connection = 0, exchanges = []\<rparr> 0x6F3A =
     ((replicate 15 0, 0x90, 0x00),
      \<lparr>connection = 2,
       exchanges = [([0x00, 0xA4, 0x00, 0x04, 0x02, 0x6F, 0x3A], ([], 0x61, 0x0F)),
                    ([0x00, 0xC0, 0x00, 0x00, 0x0F], (replicate 15 0, 0x90, 0x00))]\<rparr>) \<and>
   select_file_usim card_swapped \<lparr>connection = 0, exchanges = []\<rparr> 0x6F3A =
     (([], 0x9F, 0x0F),
      \<lparr>connection = 1,
       exchanges = [([0x00, 0xA4, 0x00, 0x04, 0x02, 0x6F, 0x3A], ([], 0x9F, 0x0F))]\<rparr>)"
  using select_get_response [of card9F "\<lparr>connection = 0, exchanges = []\<rparr>" "0x6F3A" "[]" "0x0F" 1 "0x9F"]
    select_get_response [of card_swapped "\<lparr>connection = 0, exchanges = []\<rparr>" "0x6F3A" "[]" "0x0F" 1 "0x9F"]
  by (simp add: card9F_def card_swapped_def)

text \<open>
  C3 as stated fails: the Legacy selection that is answered 61 0F sends no GET RESPONSE,
  and 61 0F is its result.
\<close>

theorem select_gsm_0x61_counterexample:
  "select_file_gsm card_swapped \<lparr>connection = 0, exchanges = []\<rparr> 0x6F3A =
     (([], 0x61, 0x0F),
      \<lparr>connection = 1,
       exchanges = [([0xA0, 0xA4, 0x00, 0x00, 0x02, 0x6F, 0x3A], ([], 0x61, 0x0F))]\<rparr>)"
  by (simp add: select_file_gsm_def send_apdu_def card_swapped_def)

subsection \<open>The record walk\<close>

lemma read_record_cmd_exchange:
  assumes "tr (connection s) (read_record_cmd u rec rl) = (r, c)"
  shows "(if u then read_record_usim tr s rec rl else read_record tr s rec rl) =
     (r, s\<lparr>connection := c, exchanges := exchanges s @ [(read_record_cmd u rec rl, r)]\<rparr>)"
  using assms
  by (cases u) (simp_all add: read_record_cmd_def read_record_def read_record_usim_def send_apdu_def)

lemma contacts_loop_step:
  assumes "tr (connection s) (read_record_cmd u rec rl) = ((d, sw1, sw2), c)"
  shows "contacts_loop tr u rl (rec # recs) s out =
     (if sw1 = 0x90 \<and> d \<noteq> [] then
        (if list_all (\<lambda>b. b = 0xFF) d
           then contacts_loop tr u rl recs
             (s\<lparr>connection := c,
                exchanges := exchanges s @ [(read_record_cmd u rec rl, (d, sw1, sw2))]\<rparr>) out
         else contacts_loop tr u rl recs
             (s\<lparr>connection := c,
                exchanges := exchanges s @ [(read_record_cmd u rec rl, (d, sw1, sw2))]\<rparr>)
             (out @ [(rec, d)]))
      else if sw1 = 0x6A \<and> sw2 = 0x83 then
        (s\<lparr>connection := c,
           exchanges := exchanges s @ [(read_record_cmd u rec rl, (d, sw1, sw2))]\<rparr>, out)
      else contacts_loop tr u rl recs
        (s\<lparr>connection := c,
           exchanges := exchanges s @ [(read_record_cmd u rec rl, (d, sw1, sw2))]\<rparr>) out)"
  using read_record_cmd_exchange [of tr s u rec rl "(d, sw1, sw2)" c] assms
  by (simp add: contacts_loop.simps)

lemma contacts_loop_stops:
  "\<exists>k\<le>length recs.
     map fst (exchanges (fst (contacts_loop tr u rl recs s out))) =
       map fst (exchanges s) @ map (\<lambda>r. read_record_cmd u r rl) (take k recs) \<and>
     (k < length recs \<longrightarrow>
        (\<exists>d. snd (last (exchanges (fst (contacts_loop tr u rl recs s out)))) = (d, 0x6A, 0x83)))"
proof (induction recs arbitrary: s out)
  case Nil
  show ?case by (simp add: contacts_loop.simps)
next
  case (Cons rec recs)
  obtain d sw1 sw2 c where r: "tr (connection s) (read_record_cmd u rec rl) = ((d, sw1, sw2), c)"
    by (metis prod.exhaust)
  define s' where "s' = s\<lparr>connection := c,
      exchanges := exchanges s @ [(read_record_cmd u rec rl, (d, sw1, sw2))]\<rparr>"
  note step = contacts_loop_step [of tr s u rec rl d sw1 sw2 c recs out, OF r, folded s'_def]
  show ?case
  proof (cases "\<not> (sw1 = 0x90 \<and> d \<noteq> []) \<and> sw1 = 0x6A \<and> sw2 = 0x83")
    case True
    then have "contacts_loop tr u rl (rec # recs) s out = (s', out)"
      using step by simp
    with True show ?thesis
      by (intro exI [of _ 1]) (simp add: s'_def)
  next
    case False
    then obtain out' where go: "contacts_loop tr u rl (rec # recs) s out =
        contacts_loop tr u rl recs s' out'"
      using step by (cases "sw1 = 0x90 \<and> d \<noteq> []"; cases "list_all (\<lambda>b. b = 0xFF) d") auto
    from Cons.IH [of s' out'] obtain k where k: "k \<le> length recs"
      "map fst (exchanges (fst (contacts_loop tr u rl recs s' out'))) =
         map fst (exchanges s') @ map (\<lambda>r. read_record_cmd u r rl) (take k recs)"
      "k < length recs \<longrightarrow>
        (\<exists>d. snd (last (exchanges (fst (contacts_loop tr u rl recs s' out')))) = (d, 0x6A, 0x83))"
      by blast
    show ?thesis
      using k unfolding go
      by (intro exI [of _ "Suc k"]) (simp add: s'_def)
  qed
qed

text \<open>
  C5: in a walk over geometry {recordLength = 4, recordCount = 10}, under either
  dialect, where the reads of indices 1 to 3 return non-sentinel data with 90 00, index 4
  returns four 0xFF bytes with 90 00 and index 5 returns 6A 83, the walk produces
  exactly the records of indices 1, 2, 3 and sends exactly the five reads of indices 1
  to 5: no read for index 6 or higher.
\<close>

theorem walk_example:
  assumes r1: "tr (connection s) (read_record_cmd u 1 4) = ((d1, 0x90, 0x00), c1)"
      and r2: "tr c1 (read_record_cmd u 2 4) = ((d2, 0x90, 0x00), c2)"
      and r3: "tr c2 (read_record_cmd u 3 4) = ((d3, 0x90, 0x00), c3)"
      and r4: "tr c3 (read_record_cmd u 4 4) = (([0xFF, 0xFF, 0xFF, 0xFF], 0x90, 0x00), c4)"
      and r5: "tr c4 (read_record_cmd u 5 4) = ((d5, 0x6A, 0x83), c5)"
      and d1: "d1 \<noteq> []" "\<not> list_all (\<lambda>b. b = 0xFF) d1"
      and d2: "d2 \<noteq> []" "\<not> list_all (\<lambda>b. b = 0xFF) d2"
      and d3: "d3 \<noteq> []" "\<not> list_all (\<lambda>b. b = 0xFF) d3"
  shows "read_all_contacts tr u 4 10 s =
     (s\<lparr>connection := c5,
        exchanges := exchanges s @
          [(read_record_cmd u 1 4, (d1, 0x90, 0x00)),
           (read_record_cmd u 2 4, (d2, 0x90, 0x00)),
           (read_record_cmd u 3 4, (d3, 0x90, 0x00)),
           (read_record_cmd u 4 4, ([0xFF, 0xFF, 0xFF, 0xFF], 0x90, 0x00)),
           (read_record_cmd u 5 4, (d5, 0x6A, 0x83))]\<rparr>,
      [(1, d1), (2, d2), (3, d3)])"
proof -
  define s1 where "s1 = s\<lparr>connection := c1,
    exchanges := exchanges s @ [(read_record_cmd u 1 4, (d1, 0x90, 0x00))]\<rparr>"
  define s2 where "s2 = s1\<lparr>connection := c2,
    exchanges := exchanges s1 @ [(read_record_cmd u 2 4, (d2, 0x90, 0x00))]\<rparr>"
  define s3 where "s3 = s2\<lparr>connection := c3,
    exchanges := exchanges s2 @ [(read_record_cmd u 3 4, (d3, 0x90, 0x00))]\<rparr>"
  define s4 where "s4 = s3\<lparr>connection := c4,
    exchanges := exchanges s3 @ [(read_record_cmd u 4 4, ([0xFF, 0xFF, 0xFF, 0xFF], 0x90, 0x00))]\<rparr>"
  define s5 where "s5 = s4\<lparr>connection := c5,
    exchanges := exchanges s4 @ [(read_record_cmd u 5 4, (d5, 0x6A, 0x83))]\<rparr>"
  have range: "[1..<min (10 + 1) 251] = [1, 2, 3, 4, 5, 6, 7, 8, 9, 10 :: nat]"
    by code_simp
  have "contacts_loop tr u 4 [1, 2, 3, 4, 5, 6, 7, 8, 9, 10] s [] =
      contacts_loop tr u 4 [2, 3, 4, 5, 6, 7, 8, 9, 10] s1 [(1, d1)]"
    using contacts_loop_step [of tr s u 1 4 d1 "0x90" 0 c1] r1 d1 by (simp add: s1_def)
  also have "\<dots> = contacts_loop tr u 4 [3, 4, 5, 6, 7, 8, 9, 10] s2 [(1, d1), (2, d2)]"
    using contacts_loop_step [of tr s1 u 2 4 d2 "0x90" 0 c2] r2 d2 by (simp add: s1_def s2_def)
  also have "\<dots> = contacts_loop tr u 4 [4, 5, 6, 7, 8, 9, 10] s3 [(1, d1), (2, d2), (3, d3)]"
    using contacts_loop_step [of tr s2 u 3 4 d3 "0x90" 0 c3] r3 d3 by (simp add: s2_def s3_def)
  also have "\<dots> = contacts_loop tr u 4 [5, 6, 7, 8, 9, 10] s4 [(1, d1), (2, d2), (3, d3)]"
    using contacts_loop_step [of tr s3 u 4 4 "[0xFF, 0xFF, 0xFF, 0xFF]" "0x90" 0 c4] r4
    by (simp add: s3_def s4_def)
  also have "\<dots> = (s5, [(1, d1), (2, d2), (3, d3)])"
    using contacts_loop_step [of tr s4 u 5 4 d5 "0x6A" "0x83" c5] r5
    by (simp add: s4_def s5_def)
  finally have "contacts_loop tr u 4 [1, 2, 3, 4, 5, 6, 7, 8, 9, 10] s [] =
      (s5, [(1, d1), (2, d2), (3, d3)])" .
  then show ?thesis
    unfolding read_all_contacts_def range
    by (simp add: s1_def s2_def s3_def s4_def s5_def)
qed

text \<open>
  C5 on a card of that shape, under the Legacy dialect.
\<close>

theorem walk_example_witness:
  "read_all_contacts card_walk False 4 10 \<lparr>connection = 0, exchanges = []\<rparr> =
     (\<lparr>connection = 5,
       exchanges =
         [([0xA0, 0xB2, 1, 0x04, 4], ([1, 0x81, 0x21, 0x43], 0x90, 0x00)),
          ([0xA0, 0xB2, 2, 0x04, 4], ([2, 0x81, 0x21, 0x43], 0x90, 0x00)),
          ([0xA0, 0xB2, 3, 0x04, 4], ([3, 0x81, 0x21, 0x43], 0x90, 0x00)),
          ([0xA0, 0xB2, 4, 0x04, 4], ([0xFF, 0xFF, 0xFF, 0xFF], 0x90, 0x00)),
          ([0xA0, 0xB2, 5, 0x04, 4], ([], 0x6A, 0x83))]\<rparr>,
      [(1, [1, 0x81, 0x21, 0x43]), (2, [2, 0x81, 0x21, 0x43]), (3, [3, 0x81, 0x21, 0x43])])"
  using walk_example [of card_walk "\<lparr>connection = 0, exchanges = []\<rparr>" False
      "[1, 0x81, 0x21, 0x43]" 1 "[2, 0x81, 0x21, 0x43]" 2 "[3, 0x81, 0x21, 0x43]" 3 4 "[]" 5]
  by (simp add: card_walk_def read_record_cmd_def)

text \<open>
  C4, as amended: in a record walk, a read outcome other than Success (90 00) and
  NotFound (6A 83), for example 98 04 or 6A 82, does not end the walk: the walk goes on
  with the next index. The walk tests SW1 only, so for such an outcome the record of that
  index is produced exactly when SW1 = 0x90 and the data are not empty and not all 0xFF
  (a read answered 90 xx with xx other than 00), and nothing is produced for it
  otherwise. The reads sent are those of a prefix of the indices, and the walk stops
  before its last index only when the last read was answered 6A 83 (NotFound).
\<close>

theorem walk_continues_after_error:
  "(tr (connection s) (read_record_cmd u rec rl) = ((d, sw1, sw2), c) \<and>
    \<not> (sw1 = 0x90 \<and> sw2 = 0x00) \<and> \<not> (sw1 = 0x6A \<and> sw2 = 0x83) \<longrightarrow>
    contacts_loop tr u rl (rec # recs) s out =
      contacts_loop tr u rl recs
        (s\<lparr>connection := c,
           exchanges := exchanges s @ [(read_record_cmd u rec rl, (d, sw1, sw2))]\<rparr>)
        (if sw1 = 0x90 \<and> d \<noteq> [] \<and> \<not> list_all (\<lambda>b. b = 0xFF) d
         then out @ [(rec, d)] else out)) \<and>
   (\<exists>k\<le>length recs.
     map fst (exchanges (fst (contacts_loop tr u rl recs s out))) =
       map fst (exchanges s) @ map (\<lambda>r. read_record_cmd u r rl) (take k recs) \<and>
     (k < length recs \<longrightarrow>
        (\<exists>d. snd (last (exchanges (fst (contacts_loop tr u rl recs s out)))) = (d, 0x6A, 0x83))))"
proof (intro conjI impI)
  assume a: "tr (connection s) (read_record_cmd u rec rl) = ((d, sw1, sw2), c) \<and>
    \<not> (sw1 = 0x90 \<and> sw2 = 0x00) \<and> \<not> (sw1 = 0x6A \<and> sw2 = 0x83)"
  then have r: "tr (connection s) (read_record_cmd u rec rl) = ((d, sw1, sw2), c)" by simp
  show "contacts_loop tr u rl (rec # recs) s out =
      contacts_loop tr u rl recs
        (s\<lparr>connection := c,
           exchanges := exchanges s @ [(read_record_cmd u rec rl, (d, sw1, sw2))]\<rparr>)
        (if sw1 = 0x90 \<and> d \<noteq> [] \<and> \<not> list_all (\<lambda>b. b = 0xFF) d
         then out @ [(rec, d)] else out)"
    using contacts_loop_step [of tr s u rec rl d sw1 sw2 c recs out, OF r] a by auto
next
  show "\<exists>k\<le>length recs.
     map fst (exchanges (fst (contacts_loop tr u rl recs s out))) =
       map fst (exchanges s) @ map (\<lambda>r. read_record_cmd u r rl) (take k recs) \<and>
     (k < length recs \<longrightarrow>
        (\<exists>d. snd (last (exchanges (fst (contacts_loop tr u rl recs s out)))) = (d, 0x6A, 0x83)))"
    by (rule contacts_loop_stops)
qed

text \<open>
  The amended C4 on a card whose first record is answered 98 04 and whose second is
  answered 6A 82: the walk goes on to indices 2, 3 and 4 and nothing is produced for
  index 1; and on a card whose first record is answered 90 83 with data: the walk goes on
  to index 2 and the record of index 1 is produced.
\<close>

theorem walk_continues_after_error_witness:
  "card_errors 0 (read_record_cmd False 1 4) = (([], 0x98, 0x04), 1) \<and>
   contacts_loop card_errors False 4 [1, 2, 3, 4, 5] \<lparr>connection = 0, exchanges = []\<rparr> [] =
     contacts_loop card_errors False 4 [2, 3, 4, 5]
       \<lparr>connection = 1, exchanges = [([0xA0, 0xB2, 1, 0x04, 4], ([], 0x98, 0x04))]\<rparr> [] \<and>
   map fst (exchanges (fst
     (contacts_loop card_errors False 4 [1, 2, 3, 4, 5] \<lparr>connection = 0, exchanges = []\<rparr> []))) =
     [[0xA0, 0xB2, 1, 0x04, 4], [0xA0, 0xB2, 2, 0x04, 4], [0xA0, 0xB2, 3, 0x04, 4],
      [0xA0, 0xB2, 4, 0x04, 4]] \<and>
   card_9083 0 (read_record_cmd False 1 4) = (([0x02, 0x81, 0x21, 0xFF], 0x90, 0x83), 1) \<and>
   contacts_loop card_9083 False 4 [1, 2] \<lparr>connection = 0, exchanges = []\<rparr> [] =
     contacts_loop card_9083 False 4 [2]
       \<lparr>connection = 1,
        exchanges = [([0xA0, 0xB2, 1, 0x04, 4], ([0x02, 0x81, 0x21, 0xFF], 0x90, 0x83))]\<rparr>
       [(1, [0x02, 0x81, 0x21, 0xFF])]"
  using walk_continues_after_error [of card_errors "\<lparr>connection = 0, exchanges = []\<rparr>" False
      1 4 "[]" "0x98" "0x04" 1 "[2, 3, 4, 5]" "[]"]
    walk_continues_after_error [of card_9083 "\<lparr>connection = 0, exchanges = []\<rparr>" False
      1 4 "[0x02, 0x81, 0x21, 0xFF]" "0x90" "0x83" 1 "[2]" "[]"]
  by (simp add: card_errors_def card_9083_def read_record_cmd_def contacts_loop.simps
      read_record_def send_apdu_def)

text \<open>
  C4 as stated fails: on this card the read of index 1 is answered 98 04 and that of
  index 2 is answered 6A 82, and the walk still reads indices 2, 3 and 4 and produces
  record 3.
\<close>

theorem walk_error_counterexample:
  "read_all_contacts card_errors False 4 10 \<lparr>connection = 0, exchanges = []\<rparr> =
     (\<lparr>connection = 4,
       exchanges =
         [([0xA0, 0xB2, 1, 0x04, 4], ([], 0x98, 0x04)),
          ([0xA0, 0xB2, 2, 0x04, 4], ([], 0x6A, 0x82)),
          ([0xA0, 0xB2, 3, 0x04, 4], ([0x02, 0x81, 0x21, 0xFF], 0x90, 0x00)),
          ([0xA0, 0xB2, 4, 0x04, 4], ([], 0x6A, 0x83))]\<rparr>,
      [(3, [0x02, 0x81, 0x21, 0xFF])])"
proof -
  have range: "[1..<min (10 + 1) 251] = [1, 2, 3, 4, 5, 6, 7, 8, 9, 10 :: nat]"
    by code_simp
  show ?thesis
    unfolding read_all_contacts_def range
    by (simp add: card_errors_def contacts_loop.simps read_record_def send_apdu_def)
qed

subsection \<open>Status bytes and the decision to read\<close>

text \<open>
  C2, as amended: 90 00 is classified as Success, 9F xx and 61 xx as
  MoreDataAvailable(xx), 6A 83 as NotFound and every other pair, among them every pair
  with SW1 = 0x91, as OtherError carrying both bytes. The callers that decide whether to
  proceed with a read look at SW1 only: of the pairs classified OtherError they accept
  exactly those with SW1 = 0x90 or SW1 = 0x91, and the ICCID section of read_all then
  sends its READ BINARY; for every other OtherError pair it reads nothing.
\<close>

theorem other_error_gate:
  "classifyOutcome 0x90 0x00 = Success \<and>
   classifyOutcome 0x9F xx = MoreDataAvailable xx \<and>
   classifyOutcome 0x61 xx = MoreDataAvailable xx \<and>
   classifyOutcome 0x6A 0x83 = NotFound \<and>
   (classifyOutcome sw1 sw2 = OtherError sw1 sw2 \<or>
      sw1 = 0x90 \<and> sw2 = 0x00 \<or> sw1 = 0x9F \<or> sw1 = 0x61 \<or> sw1 = 0x6A \<and> sw2 = 0x83) \<and>
   (classifyOutcome sw1 sw2 = OtherError sw1 sw2 \<longrightarrow>
      select_accepted sw1 = (sw1 = 0x90 \<or> sw1 = 0x91) \<and>
      record_file_accepted sw1 = (sw1 = 0x90 \<or> sw1 = 0x91)) \<and>
   (select_file_gsm tr (snd (select_file_gsm tr s 0x3F00)) 0x2FE2 = ((d, sw1, sw2), s2) \<and>
    classifyOutcome sw1 sw2 = OtherError sw1 sw2 \<longrightarrow>
      read_all_iccid tr s =
        (if sw1 = 0x90 \<or> sw1 = 0x91 then
           (case read_binary tr s2 10 0 of
              ((data, sw1', sw2'), s3) \<Rightarrow>
                (if sw1' = 0x90 then Some (decode_iccid data) else None, s3))
         else (None, s2)))"
proof (intro conjI impI)
  assume a: "select_file_gsm tr (snd (select_file_gsm tr s 0x3F00)) 0x2FE2 = ((d, sw1, sw2), s2) \<and>
    classifyOutcome sw1 sw2 = OtherError sw1 sw2"
  then have "select_accepted sw1 = (sw1 = 0x90 \<or> sw1 = 0x91)"
    by (auto simp: classifyOutcome_def select_accepted_def split: if_splits)
  with a show "read_all_iccid tr s =
        (if sw1 = 0x90 \<or> sw1 = 0x91 then
           (case read_binary tr s2 10 0 of
              ((data, sw1', sw2'), s3) \<Rightarrow>
                (if sw1' = 0x90 then Some (decode_iccid data) else None, s3))
         else (None, s2))"
    by (auto simp: read_all_iccid_def Let_def split: prod.splits)
qed (auto simp: classifyOutcome_def select_accepted_def record_file_accepted_def split: if_splits)

text \<open>
  The amended C2 on a card that answers every selection with 91 00.
\<close>

theorem other_error_gate_witness:
  "classifyOutcome 0x91 0x00 = OtherError 0x91 0x00 \<and>
   select_accepted 0x91 \<and> record_file_accepted 0x91 \<and>
   read_all_iccid card91 \<lparr>connection = 0, exchanges = []\<rparr> =
     (case read_binary card91
        \<lparr>connection = 2,
         exchanges = [([0xA0, 0xA4, 0x00, 0x00, 0x02, 0x3F, 0x00], ([], 0x91, 0x00)),
                      ([0xA0, 0xA4, 0x00, 0x00, 0x02, 0x2F, 0xE2], ([], 0x91, 0x00))]\<rparr> 10 0 of
        ((data, sw1', sw2'), s3) \<Rightarrow> (if sw1' = 0x90 then Some (decode_iccid data) else None, s3))"
  using other_error_gate [of _ "0x91" "0x00" card91 "\<lparr>connection = 0, exchanges = []\<rparr>" "[]"
      "\<lparr>connection = 2,
         exchanges = [([0xA0, 0xA4, 0x00, 0x00, 0x02, 0x3F, 0x00], ([], 0x91, 0x00)),
                      ([0xA0, 0xA4, 0x00, 0x00, 0x02, 0x2F, 0xE2], ([], 0x91, 0x00))]\<rparr>"]
  by (simp add: select_file_gsm_def send_apdu_def card91_def)

text \<open>
  C2 as stated fails: 91 00 is classified OtherError, and after the selection of the
  ICCID file was answered 91 00 the READ BINARY is sent and its data decoded.
\<close>

theorem other_error_proceeds_counterexample:
  "classifyOutcome 0x91 0x00 = OtherError 0x91 0x00 \<and>
   read_all_iccid card91 \<lparr>connection = 0, exchanges = []\<rparr> =
     (Some ''8901234567890123456'',
      \<lparr>connection = 3,
       exchanges = [([0xA0, 0xA4, 0x00, 0x00, 0x02, 0x3F, 0x00], ([], 0x91, 0x00)),
                    ([0xA0, 0xA4, 0x00, 0x00, 0x02, 0x2F, 0xE2], ([], 0x91, 0x00)),
                    ([0xA0, 0xB0, 0x00, 0x00, 10],
                     ([0x98, 0x10, 0x32, 0x54, 0x76, 0x98, 0x10, 0x32, 0x54, 0xF6], 0x90, 0x00))]\<rparr>)"
  by (simp add: classifyOutcome_def read_all_iccid_def select_accepted_def select_file_gsm_def
      read_binary_def send_apdu_def card91_def decode_iccid_def iccid_step_def str.simps
      digit_char_def)

subsection \<open>decode_sms\<close>

lemma at_in_range: "i < length xs \<Longrightarrow> at xs i k = k (xs ! i)"
  by (simp add: at_def)

lemma sms_deliver_returns: "sms_deliver u h pdu result \<noteq> Inl e"
  by (simp add: sms_deliver_def at_in_range Let_def)

lemma sms_submit_returns: "sms_submit u h pdu fo result \<noteq> Inl e"
  by (simp add: sms_submit_def at_in_range Let_def)

lemma decode_sms_returns:
  assumes "2 \<le> length data"
  shows "decode_sms u h data \<noteq> Inl e"
proof -
  have "0 < length data" "1 < length data" "data \<noteq> []"
    using assms by auto
  then show ?thesis
    by (auto simp: decode_sms_def at_def Let_def sms_deliver_returns sms_submit_returns
        split: prod.splits if_splits)
qed

text \<open>
  C1, at the input on which the code departs from it: on the one-byte buffer 0x01, whose
  first byte is neither 0x00 nor 0xFF, the short-message decoder raises IndexError when
  it reads the length of the service-center address at index 1. This is the only way
  the decoder raises: it does so exactly on the buffers of one byte other than 0x00 and
  0xFF.
\<close>

theorem decode_sms_short_buffer:
  "decode_sms u h [0x01] = Inl IndexError \<and>
   ((\<exists>e. decode_sms u h data = Inl e) =
      (length data = 1 \<and> data ! 0 \<noteq> 0x00 \<and> data ! 0 \<noteq> 0xFF))"
proof
  show "decode_sms u h [0x01] = Inl IndexError"
    by (simp add: decode_sms_def at_def)
next
  consider "data = []" | "length data = 1" | "2 \<le> length data"
    by (cases data) (auto simp: Suc_le_eq)
  then show "(\<exists>e. decode_sms u h data = Inl e) =
      (length data = 1 \<and> data ! 0 \<noteq> 0x00 \<and> data ! 0 \<noteq> 0xFF)"
  proof cases
    case 1
    then show ?thesis by (simp add: decode_sms_def)
  next
    case 2
    then show ?thesis by (auto simp: decode_sms_def at_def)
  next
    case 3
    with decode_sms_returns [OF 3, of u h] show ?thesis by auto
  qed
qed

end
